theory Spec2Isabelle
  imports Complex_Main "HOL-Library.Log_Nat" "HOL-Library.Code_Target_Numeral"
begin

section \<open>Strings\<close>

text \<open>The decimal digits of a natural number.\<close>

definition digit_char :: "nat \<Rightarrow> char" where
  "digit_char d = char_of (48 + d)"

function string_of_nat :: "nat \<Rightarrow> string" where
  "string_of_nat n =
     (if n < 10 then [digit_char n]
      else string_of_nat (n div 10) @ [digit_char (n mod 10)])"
  by pat_completeness auto
termination
  by (relation "measure id") auto

declare string_of_nat.simps [simp del]

text \<open>
  \<open>String.prototype.trim\<close> strips white space and line terminators from both ends. A
  \<open>string\<close> here is a list of 8-bit characters; the JavaScript white space among them is
  TAB, LF, VT, FF, CR, SPACE and NBSP (the others, such as U+FEFF and U+2028, lie outside
  the character type).
\<close>

definition js_whitespace :: "char \<Rightarrow> bool" where
  "js_whitespace c = (of_char c \<in> {9, 10, 11, 12, 13, 32, 160 :: nat})"

definition js_trim :: "string \<Rightarrow> string" where
  "js_trim s = rev (dropWhile js_whitespace (rev (dropWhile js_whitespace s)))"

section \<open>JavaScript numbers\<close>

text \<open>
  A JavaScript number is an IEEE 754 double: a finite value, an infinity or NaN. A
  finite double is modelled by the rational it denotes (the two zeros are one value
  here; the program never tells them apart: \<open>-0 === 0\<close>, and \<open>-0\<close> prints as \<open>0\<close>).
\<close>

datatype jsnum = Fin rat | PosInf | NegInf | NaN

text \<open>
  Rounding a real result to a double, to nearest with ties to even. For \<open>x > 0\<close>,
  \<open>binexp x\<close> is the exponent \<open>e\<close> with \<open>2^e \<le> x < 2^(e+1)\<close>, found from the bit
  lengths of numerator and denominator. The spacing of the doubles around \<open>x\<close> is
  \<open>2^(e-52)\<close>, and \<open>2^-1074\<close> in the subnormal range; a result that rounds to \<open>2^1024\<close> or
  more overflows to infinity.
\<close>

definition binexp :: "rat \<Rightarrow> int" where
  "binexp x =
     (let (p, q) = quotient_of x; k = bitlen p - bitlen q
      in if 2 powi k \<le> x then k else k - 1)"

definition round_half_even :: "rat \<Rightarrow> int" where
  "round_half_even m =
     (let f = \<lfloor>m\<rfloor>; d = m - of_int f
      in if d < 1 / 2 then f else if 1 / 2 < d then f + 1 else if even f then f else f + 1)"

definition fl_pos :: "rat \<Rightarrow> jsnum" where
  "fl_pos x =
     (let u = max (binexp x - 52) (- 1074);
          v = of_int (round_half_even (x / 2 powi u)) * 2 powi u
      in if 2 ^ 1024 \<le> v then PosInf else Fin v)"

fun js_neg :: "jsnum \<Rightarrow> jsnum" where
  "js_neg (Fin x) = Fin (- x)"
| "js_neg PosInf = NegInf"
| "js_neg NegInf = PosInf"
| "js_neg NaN = NaN"

definition to_double :: "rat \<Rightarrow> jsnum" where
  "to_double x = (if x = 0 then Fin 0 else if 0 < x then fl_pos x else js_neg (fl_pos (- x)))"




text \<open>
  An integer in a JSON text is read as the nearest double, and \<open>a - b\<close> is the exact
  difference, rounded; differences with an infinity follow IEEE 754.
\<close>

definition js_number :: "int \<Rightarrow> jsnum" where
  "js_number n = to_double (of_int n)"

fun js_sub :: "jsnum \<Rightarrow> jsnum \<Rightarrow> jsnum" where
  "js_sub (Fin x) (Fin y) = to_double (x - y)"
| "js_sub (Fin x) PosInf = NegInf"
| "js_sub (Fin x) NegInf = PosInf"
| "js_sub PosInf (Fin y) = PosInf"
| "js_sub PosInf NegInf = PosInf"
| "js_sub NegInf (Fin y) = NegInf"
| "js_sub NegInf PosInf = NegInf"
| "js_sub a b = NaN"

text \<open>
  \<open>Number::toString\<close>, which a template literal, string concatenation and \<open>String\<close>
  apply to a number. For a finite \<open>x > 0\<close> it takes the least number \<open>k\<close> of digits for
  which some \<open>k\<close>-digit integer \<open>s\<close> and exponent \<open>n\<close> give a decimal \<open>s * 10^(n-k)\<close> that
  reads back as \<open>x\<close>; of two such \<open>s\<close> the one nearer to \<open>x\<close> (when equally near, the even
  one). \<open>dec_exp x\<close> is the \<open>n\<close> with \<open>10^(n-1) \<le> x < 10^n\<close>; the candidates for \<open>k\<close>
  digits are then \<open>x / 10^(n-k)\<close> rounded down and up. Seventeen digits always suffice.
\<close>

definition dec_exp :: "rat \<Rightarrow> int" where
  "dec_exp x =
     (let (p, q) = quotient_of x;
          k = int (floorlog 10 (nat p)) - int (floorlog 10 (nat q))
      in if 10 powi k \<le> x then k + 1 else k)"

definition digits_k :: "rat \<Rightarrow> nat \<Rightarrow> (int \<times> int) option" where
  "digits_k x k =
     (let n = dec_exp x; sc = 10 powi (n - int k);
          lo = \<lfloor>x / sc\<rfloor>; hi = lo + 1;
          ok_lo = (to_double (of_int lo * sc) = Fin x);
          ok_hi = (to_double (of_int hi * sc) = Fin x);
          d_lo = x - of_int lo * sc; d_hi = of_int hi * sc - x
      in if ok_lo \<and> (\<not> ok_hi \<or> d_lo < d_hi \<or> (d_lo = d_hi \<and> even lo)) then Some (lo, n)
         else if ok_hi then (if hi = 10 ^ k then Some (10 ^ (k - 1), n + 1) else Some (hi, n))
         else None)"

fun first_digits :: "rat \<Rightarrow> nat list \<Rightarrow> (int \<times> int) option" where
  "first_digits x [] = None"
| "first_digits x (k # ks) =
     (case digits_k x k of Some r \<Rightarrow> Some r | None \<Rightarrow> first_digits x ks)"

definition shortest_digits :: "rat \<Rightarrow> (int \<times> int) option" where
  "shortest_digits x =
     first_digits x [1, 2, 3, 4, 5, 6, 7, 8, 9, 10, 11, 12, 13, 14, 15, 16, 17]"

text \<open>
  The digits \<open>ds\<close> of \<open>s\<close> are laid out by the exponent \<open>n\<close>: as an integer with trailing
  zeros, with a decimal point inside, as \<open>0.000ddd\<close>, or in exponent notation outside
  \<open>10^-7 \<le> x < 10^21\<close>.
\<close>

definition format_digits :: "string \<Rightarrow> int \<Rightarrow> string" where
  "format_digits ds n =
     (let k = int (length ds) in
      if k \<le> n \<and> n \<le> 21 then ds @ replicate (nat (n - k)) CHR ''0''
      else if 0 < n \<and> n \<le> 21 then take (nat n) ds @ ''.'' @ drop (nat n) ds
      else if - 6 < n \<and> n \<le> 0 then ''0.'' @ replicate (nat (- n)) CHR ''0'' @ ds
      else (if k = 1 then ds else hd ds # ''.'' @ tl ds)
           @ ''e'' @ (if 0 < n - 1 then ''+'' else ''-'') @ string_of_nat (nat \<bar>n - 1\<bar>))"

fun js_number_to_string :: "jsnum \<Rightarrow> string" where
  "js_number_to_string NaN = ''NaN''"
| "js_number_to_string PosInf = ''Infinity''"
| "js_number_to_string NegInf = ''-Infinity''"
| "js_number_to_string (Fin x) =
     (if x = 0 then ''0''
      else (if x < 0 then ''-'' else [])
           @ (case shortest_digits \<bar>x\<bar> of
                None \<Rightarrow> []
              | Some (s, n) \<Rightarrow> format_digits (string_of_nat (nat s)) n))"

declare js_number_to_string.simps [simp del]

section \<open>JavaScript values\<close>

text \<open>
  The values that cross the wire are JSON. Objects are association lists of their own
  properties; a number is the double it was read as.
\<close>

datatype jsval =
    JUndefined
  | JNull
  | JBool bool
  | JNum jsnum
  | JStr string
  | JArr "jsval list"
  | JObj "(string \<times> jsval) list"

text \<open>
  ToBoolean: \<open>undefined\<close>, \<open>null\<close>, \<open>false\<close>, \<open>0\<close>, \<open>NaN\<close> and the empty string
  are falsy; every object and array is truthy.
\<close>

fun truthy :: "jsval \<Rightarrow> bool" where
  "truthy JUndefined = False"
| "truthy JNull = False"
| "truthy (JBool b) = b"
| "truthy (JNum n) = (n \<noteq> Fin 0 \<and> n \<noteq> NaN)"
| "truthy (JStr s) = (s \<noteq> [])"
| "truthy (JArr xs) = True"
| "truthy (JObj fs) = True"

text \<open>\<open>a || b\<close> evaluates to \<open>a\<close> when \<open>a\<close> is truthy and to \<open>b\<close> otherwise.\<close>

definition js_or :: "jsval \<Rightarrow> jsval \<Rightarrow> jsval" where
  "js_or a b = (if truthy a then a else b)"

text \<open>
  \<open>v?.k\<close>: \<open>undefined\<close> when \<open>v\<close> is \<open>undefined\<close> or \<open>null\<close>, the property when \<open>v\<close>
  is an object that has it, and \<open>undefined\<close> for a missing property. The two keys read
  by this program, \<open>detail\<close> and \<open>message\<close>, are no properties of strings, numbers,
  booleans or arrays.
\<close>

fun js_get :: "jsval \<Rightarrow> string \<Rightarrow> jsval" where
  "js_get (JObj fs) k = (case map_of fs k of Some v \<Rightarrow> v | None \<Rightarrow> JUndefined)"
| "js_get v k = JUndefined"

text \<open>
  ToString. A string is itself; a number goes through \<open>Number::toString\<close>; an array is
  the \<open>join\<close> of its elements with commas, \<open>null\<close> and \<open>undefined\<close> elements counting as
  empty; an object parsed from JSON is \<open>[object Object]\<close>, unless it has a property of
  its own named \<open>toString\<close>: that value is not callable, the inherited \<open>valueOf\<close> returns
  the object itself, and the conversion throws a TypeError (\<open>None\<close>).
\<close>

fun js_to_string :: "jsval \<Rightarrow> string option"
  and join_elements :: "jsval list \<Rightarrow> string option"
  and element_to_string :: "jsval \<Rightarrow> string option" where
  "js_to_string JUndefined = Some ''undefined''"
| "js_to_string JNull = Some ''null''"
| "js_to_string (JBool b) = Some (if b then ''true'' else ''false'')"
| "js_to_string (JNum n) = Some (js_number_to_string n)"
| "js_to_string (JStr s) = Some s"
| "js_to_string (JArr xs) = join_elements xs"
| "js_to_string (JObj fs) =
     (if ''toString'' \<in> set (map fst fs) then None else Some ''[object Object]'')"
| "join_elements [] = Some []"
| "join_elements [x] = element_to_string x"
| "join_elements (x # y # ys) =
     (case element_to_string x of
        None \<Rightarrow> None
      | Some a \<Rightarrow>
          (case join_elements (y # ys) of
             None \<Rightarrow> None
           | Some b \<Rightarrow> Some (a @ '','' @ b)))"
| "element_to_string JUndefined = Some []"
| "element_to_string JNull = Some []"
| "element_to_string (JBool b) = js_to_string (JBool b)"
| "element_to_string (JNum n) = js_to_string (JNum n)"
| "element_to_string (JStr s) = js_to_string (JStr s)"
| "element_to_string (JArr xs) = js_to_string (JArr xs)"
| "element_to_string (JObj fs) = js_to_string (JObj fs)"

section \<open>The request functions (services/api.js)\<close>

text \<open>
  A \<open>File\<close> picked by the user is known by its name and size. A request made through
  the axios instance has a method, a path under the base URL, query parameters and a body
  (JSON or multipart form data).
\<close>

record js_file =
  file_name :: string
  file_size :: nat

datatype http_method = GET | POST

datatype request_body =
    NoBody
  | JsonBody jsval
  | FormData "(string \<times> js_file) list"

record api_request =
  req_method :: http_method
  url :: string
  params :: "(string \<times> jsval) list"
  body :: request_body

text \<open>
  \<^verbatim>\<open>
  export const uploadImageAndSearch = async (imageFile, topK = 5) => {
    const formData = new FormData();
    formData.append('file', imageFile);
    const response = await api.post('/upload', formData, {
      headers: { 'Content-Type': 'multipart/form-data' },
      params: { top_k: topK },
    });
    return response.data;
  };
  export const searchImages = async (query, topK = 5) => {
    const response = await api.post('/search', { query, top_k: topK });
    return response.data;
  };
  export const indexImages = async (imageUrls, batchSize = 10) => {
    const response = await api.post('/index', { image_urls: imageUrls, batch_size: batchSize });
    return response.data;
  };
  export const getHealthStatus = async () => {
    const response = await api.get('/health');
    return response.data;
  };
  export const getSystemStats = async () => {
    const response = await api.get('/stats');
    return response.data;
  };
  \<close>
  Each function is modelled by the request it sends. An argument with a default is an
  option: \<open>None\<close> is the argument left out.
\<close>

definition uploadImageAndSearch :: "js_file \<Rightarrow> jsnum option \<Rightarrow> api_request" where
  "uploadImageAndSearch imageFile topK =
     \<lparr>req_method = POST, url = ''/upload'',
      params = [(''top_k'', JNum (case topK of None \<Rightarrow> Fin 5 | Some k \<Rightarrow> k))],
      body = FormData [(''file'', imageFile)]\<rparr>"

definition searchImages :: "string \<Rightarrow> jsnum option \<Rightarrow> api_request" where
  "searchImages q topK =
     \<lparr>req_method = POST, url = ''/search'', params = [],
      body = JsonBody (JObj [(''query'', JStr q),
                             (''top_k'', JNum (case topK of None \<Rightarrow> Fin 5 | Some k \<Rightarrow> k))])\<rparr>"

definition indexImages :: "string list \<Rightarrow> jsnum option \<Rightarrow> api_request" where
  "indexImages imageUrls batchSize =
     \<lparr>req_method = POST, url = ''/index'', params = [],
      body = JsonBody (JObj [(''image_urls'', JArr (map JStr imageUrls)),
                             (''batch_size'',
                              JNum (case batchSize of None \<Rightarrow> Fin 10 | Some k \<Rightarrow> k))])\<rparr>"

definition getHealthStatus :: api_request where
  "getHealthStatus = \<lparr>req_method = GET, url = ''/health'', params = [], body = NoBody\<rparr>"

definition getSystemStats :: api_request where
  "getSystemStats = \<lparr>req_method = GET, url = ''/stats'', params = [], body = NoBody\<rparr>"

definition rest_endpoints :: "string set" where
  "rest_endpoints = {''/upload'', ''/search'', ''/index'', ''/health'', ''/stats''}"

section \<open>The axios response interceptor (services/api.js)\<close>

text \<open>
  The rejected value handed to the interceptor: \<open>error.response\<close> (absent when the
  server did not answer), \<open>error.request\<close> (truthy when the request was sent) and
  \<open>error.message\<close>.
\<close>

record http_response =
  data :: jsval
  http_status :: nat

record axios_error =
  response :: "http_response option"
  request :: bool
  message :: jsval

text \<open>
  \<^verbatim>\<open>
  (error) => {
    if (error.response) {
      const message = error.response.data?.detail ||
                     error.response.data?.message ||
                     `Server error: ${error.response.status}`;
      throw new Error(message);
    } else if (error.request) {
      throw new Error('No response from server. Please check your connection.');
    } else {
      throw new Error(error.message || 'An unexpected error occurred');
    }
  }
  \<close>
  \<open>new Error(v)\<close> sets the message to the string conversion of \<open>v\<close> (no message, read
  as the empty string, for \<open>undefined\<close>); when the conversion throws, the TypeError is what
  leaves the interceptor. The status in the template literal is a number, converted by
  \<open>Number::toString\<close>.
\<close>

datatype js_exception = Error string | TypeError

definition new_Error :: "jsval \<Rightarrow> js_exception" where
  "new_Error v =
     (case v of
        JUndefined \<Rightarrow> Error []
      | _ \<Rightarrow> (case js_to_string v of Some s \<Rightarrow> Error s | None \<Rightarrow> TypeError))"

definition response_interceptor :: "axios_error \<Rightarrow> js_exception" where
  "response_interceptor error =
     (case response error of
        Some r \<Rightarrow>
          new_Error
            (js_or (js_get (data r) ''detail'')
               (js_or (js_get (data r) ''message'')
                  (JStr (''Server error: ''
                     @ js_number_to_string (js_number (int (http_status r)))))))
      | None \<Rightarrow>
          if request error
          then new_Error (JStr ''No response from server. Please check your connection.'')
          else new_Error (js_or (message error) (JStr ''An unexpected error occurred'')))"

section \<open>The tabbed App component\<close>

text \<open>
  The tabbed \<open>App\<close> keeps three pieces of React state:
  \<^verbatim>\<open>
  const [searchResults, setSearchResults] = useState(null);
  const [isLoading, setIsLoading] = useState(false);
  const [activeTab, setActiveTab] = useState('image'); // 'image', 'text', or 'csv'
  \<close>
  The search results are an opaque response body \<open>'r\<close>; \<open>null\<close> is \<open>None\<close>.
\<close>

record 'r app_state =
  searchResults :: "'r option"
  isLoading :: bool
  activeTab :: string

definition app_init :: "'r app_state" where
  "app_init = \<lparr>searchResults = None, isLoading = False, activeTab = ''image''\<rparr>"

text \<open>
  \<^verbatim>\<open>
  const handleSearchComplete = (results) => {
    setSearchResults(results);
    setIsLoading(false);
  };
  const handleSearchStart = () => {
    setIsLoading(true);
    setSearchResults(null);
  };
  const switchTab = (tab) => {
    if (!isLoading) {
      setActiveTab(tab);
      setSearchResults(null);
    }
  };
  \<close>
\<close>

definition handleSearchComplete :: "'r option \<Rightarrow> 'r app_state \<Rightarrow> 'r app_state" where
  "handleSearchComplete results s = s\<lparr>searchResults := results, isLoading := False\<rparr>"

definition handleSearchStart :: "'r app_state \<Rightarrow> 'r app_state" where
  "handleSearchStart s = s\<lparr>isLoading := True, searchResults := None\<rparr>"

definition switchTab :: "string \<Rightarrow> 'r app_state \<Rightarrow> 'r app_state" where
  "switchTab tab s =
     (if \<not> isLoading s then s\<lparr>activeTab := tab, searchResults := None\<rparr> else s)"

text \<open>
  The states the component can reach. \<open>switchTab\<close> has exactly three call sites, the
  \<open>onClick\<close> handlers of the three tab buttons, with the literals \<open>'image'\<close>,
  \<open>'text'\<close> and \<open>'csv'\<close>; the two search callbacks are handed to the child components
  and may be called at any time with any result.
\<close>

inductive reachable_app :: "'r app_state \<Rightarrow> bool" where
  ra_init: "reachable_app app_init"
| ra_start: "reachable_app s \<Longrightarrow> reachable_app (handleSearchStart s)"
| ra_complete: "reachable_app s \<Longrightarrow> reachable_app (handleSearchComplete results s)"
| ra_tab_image: "reachable_app s \<Longrightarrow> reachable_app (switchTab ''image'' s)"
| ra_tab_text: "reachable_app s \<Longrightarrow> reachable_app (switchTab ''text'' s)"
| ra_tab_csv: "reachable_app s \<Longrightarrow> reachable_app (switchTab ''csv'' s)"

definition tab_names :: "string set" where
  "tab_names = {''image'', ''text'', ''csv''}"

section \<open>Side effects of the components\<close>

text \<open>
  What a handler does besides updating state is appended to a log, in program order: the
  toasts, the console output, \<open>e.preventDefault()\<close>, and the calls of the functions that
  the components import from \<open>services/api\<close> (named by the function called; each returns
  a promise that the environment later resolves or rejects). Of these,
  \<open>searchImagesByText\<close>, \<open>uploadCSVWithProgress\<close> and \<open>getUploadProgress\<close> are used
  by the components only: what they request is not part of this model.
\<close>

datatype api_call =
    UploadImageAndSearch js_file
  | SearchImagesByText string
  | UploadCSVWithProgress js_file string
  | GetUploadProgress string

datatype effect =
    ToastError string
  | ToastSuccess string
  | ConsoleError string
  | PreventDefault
  | Call api_call

fun is_toast :: "effect \<Rightarrow> bool" where
  "is_toast (ToastError m) = True"
| "is_toast (ToastSuccess m) = True"
| "is_toast e = False"

fun is_call :: "effect \<Rightarrow> bool" where
  "is_call (Call c) = True"
| "is_call e = False"

fun is_poll :: "effect \<Rightarrow> bool" where
  "is_poll (Call (GetUploadProgress t)) = True"
| "is_poll e = False"

section \<open>ImageUpload and TextSearch\<close>

text \<open>
  Each search component owns its input and receives \<open>onSearchStart\<close> and
  \<open>onSearchComplete\<close> from \<open>App\<close>, so a handler runs on the component's state together
  with the state of \<open>App\<close>.
\<close>

record image_world =
  image_app :: "jsval app_state"
  selectedImage :: "js_file option"
  previewUrl :: "string option"
  image_log :: "effect list"

record text_world =
  text_app :: "jsval app_state"
  query :: string
  text_log :: "effect list"

text \<open>
  \<^verbatim>\<open>
  const handleSearch = async () => {
    if (!selectedImage) {
      toast.error('Please select an image first');
      return;
    }
    onSearchStart();
    try {
      const results = await uploadImageAndSearch(selectedImage);
      onSearchComplete(results);
      toast.success('Search completed successfully!');
    } catch (error) {
      console.error('Search error:', error);
      toast.error('Search failed: ' + error.message);
      onSearchComplete(null);
    }
  };
  \<close>
  An \<open>async\<close> handler is three functions: the part up to the \<open>await\<close>, the continuation
  when the promise resolves, and the \<open>catch\<close> block when it rejects (with the rejecting
  error's message).
\<close>

definition ImageUpload_handleSearch :: "image_world \<Rightarrow> image_world" where
  "ImageUpload_handleSearch w =
     (case selectedImage w of
        None \<Rightarrow> w\<lparr>image_log := image_log w @ [ToastError ''Please select an image first'']\<rparr>
      | Some img \<Rightarrow>
          w\<lparr>image_app := handleSearchStart (image_app w),
            image_log := image_log w @ [Call (UploadImageAndSearch img)]\<rparr>)"

definition ImageUpload_handleSearch_resolved :: "jsval \<Rightarrow> image_world \<Rightarrow> image_world" where
  "ImageUpload_handleSearch_resolved results w =
     w\<lparr>image_app := handleSearchComplete (Some results) (image_app w),
       image_log := image_log w @ [ToastSuccess ''Search completed successfully!'']\<rparr>"

definition ImageUpload_handleSearch_rejected :: "string \<Rightarrow> image_world \<Rightarrow> image_world" where
  "ImageUpload_handleSearch_rejected msg w =
     w\<lparr>image_app := handleSearchComplete None (image_app w),
       image_log := image_log w
         @ [ConsoleError (''Search error: '' @ msg), ToastError (''Search failed: '' @ msg)]\<rparr>"

text \<open>
  \<^verbatim>\<open>
  const handleSearch = async (e) => {
    e.preventDefault();
    if (!query.trim()) {
      toast.error('Please enter a search query');
      return;
    }
    onSearchStart();
    try {
      const results = await searchImagesByText(query.trim());
      onSearchComplete(results);
      toast.success('Search completed successfully!');
    } catch (error) {
      console.error('Text search error:', error);
      toast.error('Search failed: ' + error.message);
      onSearchComplete(null);
    }
  };
  \<close>
\<close>

definition TextSearch_handleSearch :: "text_world \<Rightarrow> text_world" where
  "TextSearch_handleSearch w =
     (if js_trim (query w) = []
      then w\<lparr>text_log := text_log w @ [PreventDefault, ToastError ''Please enter a search query'']\<rparr>
      else w\<lparr>text_app := handleSearchStart (text_app w),
             text_log := text_log w
               @ [PreventDefault, Call (SearchImagesByText (js_trim (query w)))]\<rparr>)"

definition TextSearch_handleSearch_resolved :: "jsval \<Rightarrow> text_world \<Rightarrow> text_world" where
  "TextSearch_handleSearch_resolved results w =
     w\<lparr>text_app := handleSearchComplete (Some results) (text_app w),
       text_log := text_log w @ [ToastSuccess ''Search completed successfully!'']\<rparr>"

definition TextSearch_handleSearch_rejected :: "string \<Rightarrow> text_world \<Rightarrow> text_world" where
  "TextSearch_handleSearch_rejected msg w =
     w\<lparr>text_app := handleSearchComplete None (text_app w),
       text_log := text_log w
         @ [ConsoleError (''Text search error: '' @ msg), ToastError (''Search failed: '' @ msg)]\<rparr>"

section \<open>CSVUpload\<close>

text \<open>
  The body of a progress response and the result object that the completion branch
  builds. The backend reports counts, so \<open>current\<close> and \<open>total\<close> are the integers of
  the JSON text; the completion branch computes with the doubles they are read as
  (\<open>js_number\<close>). \<open>progressData.total\<close> is the field \<open>total_count\<close>.
\<close>

record progress_data =
  status :: string
  current :: int
  total_count :: int
  errors :: "string list"
  current_url :: "string option"

record upload_results =
  result_message :: string
  total_urls :: jsnum
  successful_indexes :: jsnum
  failed_urls :: "string list"
  processing_time :: "rat option"

text \<open>
  \<^verbatim>\<open>
  const [selectedFile, setSelectedFile] = useState(null);
  const [columnName, setColumnName] = useState('url');
  const [isUploading, setIsUploading] = useState(false);
  const [uploadResults, setUploadResults] = useState(null);
  const [showSettings, setShowSettings] = useState(false);
  const [progress, setProgress] = useState(null);
  const [taskId, setTaskId] = useState(null);
  \<close>
  \<open>taskId\<close> holds \<open>null\<close> or what the upload response carried as \<open>task_id\<close>: \<open>None\<close> is
  \<open>null\<close>/\<open>undefined\<close>, \<open>Some s\<close> a string.
\<close>

record csv_state =
  selectedFile :: "js_file option"
  columnName :: string
  isUploading :: bool
  uploadResults :: "upload_results option"
  showSettings :: bool
  progress :: "progress_data option"
  taskId :: "string option"

text \<open>
  Outside the React state the component owns at most one browser timer, the one made by
  \<open>setInterval\<close> in the polling effect: its id, its period in milliseconds, and the
  \<open>taskId\<close> its callback closed over.
\<close>

record timer =
  timer_id :: nat
  delay :: nat
  polled_task :: string

record csv_world = csv_state +
  interval :: "timer option"
  next_timer_id :: nat
  csv_log :: "effect list"

definition csv_init :: csv_world where
  "csv_init =
     \<lparr>selectedFile = None, columnName = ''url'', isUploading = False, uploadResults = None,
      showSettings = False, progress = None, taskId = None,
      interval = None, next_timer_id = 0, csv_log = []\<rparr>"

text \<open>
  \<^verbatim>\<open>
  useEffect(() => {
    let interval;
    if (taskId && isUploading) {
      interval = setInterval(async () => { ... }, 2000); // Poll every 2 seconds
    }
    return () => {
      if (interval) clearInterval(interval);
    };
  }, [taskId, isUploading]);
  \<close>
  \<open>taskId\<close> in a condition is truthy when it is a non-empty string.
\<close>

definition task_set :: "string option \<Rightarrow> bool" where
  "task_set t = (case t of None \<Rightarrow> False | Some s \<Rightarrow> s \<noteq> [])"

definition poll_effect :: "csv_world \<Rightarrow> csv_world" where
  "poll_effect w =
     (case taskId w of
        None \<Rightarrow> w
      | Some t \<Rightarrow>
          if t \<noteq> [] \<and> isUploading w
          then w\<lparr>interval := Some \<lparr>timer_id = next_timer_id w, delay = 2000, polled_task = t\<rparr>,
                 next_timer_id := Suc (next_timer_id w)\<rparr>
          else w)"

definition poll_cleanup :: "csv_world \<Rightarrow> csv_world" where
  "poll_cleanup w = w\<lparr>interval := None\<rparr>"

text \<open>
  After a handler has run, React renders again; when one of the dependencies
  \<open>[taskId, isUploading]\<close> differs from the previous render (the state \<open>prev\<close>), it
  runs the cleanup of the previous effect and then the effect.
\<close>

definition rerender :: "csv_world \<Rightarrow> csv_world \<Rightarrow> csv_world" where
  "rerender prev w =
     (if taskId w \<noteq> taskId prev \<or> isUploading w \<noteq> isUploading prev
      then poll_effect (poll_cleanup w)
      else w)"

text \<open>\<open>clearInterval(id)\<close> stops the timer with that id, if it still runs.\<close>

definition clearInterval :: "nat \<Rightarrow> csv_world \<Rightarrow> csv_world" where
  "clearInterval i w =
     (case interval w of
        None \<Rightarrow> w
      | Some tm \<Rightarrow> if timer_id tm = i then w\<lparr>interval := None\<rparr> else w)"

text \<open>
  The interval callback:
  \<^verbatim>\<open>
  async () => {
    try {
      const progressData = await getUploadProgress(taskId);
      setProgress(progressData);
      if (progressData.status === 'completed' || progressData.status === 'error') {
        setIsUploading(false);
        clearInterval(interval);
        if (progressData.status === 'completed') {
          const successCount = progressData.current - progressData.errors.length;
          setUploadResults({
            message: `Processing completed! ${successCount}/${progressData.total} images indexed successfully.`,
            total_urls: progressData.total,
            successful_indexes: successCount,
            failed_urls: progressData.errors,
            processing_time: null
          });
          toast.success(`Successfully indexed ${successCount} images!`);
        } else {
          toast.error('Upload failed');
        }
      }
    } catch (error) {
      console.error('Error fetching progress:', error);
    }
  }
  \<close>
  \<open>poll_tick\<close> is the callback up to the \<open>await\<close>, \<open>poll_resolved\<close> its continuation (for
  the callback of the timer with id \<open>i\<close>), \<open>poll_rejected\<close> its \<open>catch\<close> block.
\<close>

definition poll_tick :: "timer \<Rightarrow> csv_world \<Rightarrow> csv_world" where
  "poll_tick tm w = w\<lparr>csv_log := csv_log w @ [Call (GetUploadProgress (polled_task tm))]\<rparr>"

definition poll_resolved :: "nat \<Rightarrow> progress_data \<Rightarrow> csv_world \<Rightarrow> csv_world" where
  "poll_resolved i progressData w =
     (let w1 = w\<lparr>progress := Some progressData\<rparr> in
      if status progressData = ''completed'' \<or> status progressData = ''error''
      then
        let w2 = clearInterval i (w1\<lparr>isUploading := False\<rparr>) in
        if status progressData = ''completed''
        then
          let successCount =
                js_sub (js_number (current progressData))
                  (js_number (int (length (errors progressData)))) in
          w2\<lparr>uploadResults := Some
                \<lparr>result_message =
                   ''Processing completed! '' @ js_number_to_string successCount @ ''/''
                     @ js_number_to_string (js_number (total_count progressData))
                     @ '' images indexed successfully.'',
                 total_urls = js_number (total_count progressData),
                 successful_indexes = successCount,
                 failed_urls = errors progressData,
                 processing_time = None\<rparr>,
              csv_log := csv_log w2
                @ [ToastSuccess
                     (''Successfully indexed '' @ js_number_to_string successCount
                        @ '' images!'')]\<rparr>
        else w2\<lparr>csv_log := csv_log w2 @ [ToastError ''Upload failed'']\<rparr>
      else w1)"

definition poll_rejected :: "string \<Rightarrow> csv_world \<Rightarrow> csv_world" where
  "poll_rejected msg w =
     w\<lparr>csv_log := csv_log w @ [ConsoleError (''Error fetching progress: '' @ msg)]\<rparr>"

text \<open>
  \<^verbatim>\<open>
  const onDrop = useCallback((acceptedFiles) => {
    const file = acceptedFiles[0];
    if (file) {
      setSelectedFile(file);
      setUploadResults(null);
      setProgress(null);
      setTaskId(null);
    }
  }, []);
  const clearFile = () => {
    setSelectedFile(null);
    setUploadResults(null);
    setProgress(null);
    setTaskId(null);
  };
  \<close>
\<close>

definition onDrop :: "js_file list \<Rightarrow> csv_world \<Rightarrow> csv_world" where
  "onDrop acceptedFiles w =
     (case acceptedFiles of
        [] \<Rightarrow> w
      | f # rest \<Rightarrow>
          w\<lparr>selectedFile := Some f, uploadResults := None, progress := None, taskId := None\<rparr>)"

definition clearFile :: "csv_world \<Rightarrow> csv_world" where
  "clearFile w =
     w\<lparr>selectedFile := None, uploadResults := None, progress := None, taskId := None\<rparr>"

text \<open>
  \<^verbatim>\<open>
  const handleUpload = async () => {
    if (!selectedFile) {
      toast.error('Please select a file first');
      return;
    }
    if (!columnName.trim()) {
      toast.error('Please specify the column name containing URLs');
      return;
    }
    setIsUploading(true);
    setUploadResults(null);
    setProgress(null);
    try {
      const initResponse = await uploadCSVWithProgress(selectedFile, columnName.trim());
      setTaskId(initResponse.task_id);
      toast.success('Upload started! Processing images...');
    } catch (error) {
      console.error('CSV upload error:', error);
      toast.error('Upload failed: ' + error.message);
      setIsUploading(false);
    }
  };
  \<close>
\<close>

definition handleUpload :: "csv_world \<Rightarrow> csv_world" where
  "handleUpload w =
     (case selectedFile w of
        None \<Rightarrow> w\<lparr>csv_log := csv_log w @ [ToastError ''Please select a file first'']\<rparr>
      | Some f \<Rightarrow>
          if js_trim (columnName w) = []
          then w\<lparr>csv_log := csv_log w
                 @ [ToastError ''Please specify the column name containing URLs'']\<rparr>
          else w\<lparr>isUploading := True, uploadResults := None, progress := None,
                 csv_log := csv_log w
                   @ [Call (UploadCSVWithProgress f (js_trim (columnName w)))]\<rparr>)"

definition handleUpload_resolved :: "string option \<Rightarrow> csv_world \<Rightarrow> csv_world" where
  "handleUpload_resolved task_id w =
     w\<lparr>taskId := task_id,
       csv_log := csv_log w @ [ToastSuccess ''Upload started! Processing images...'']\<rparr>"

definition handleUpload_rejected :: "string \<Rightarrow> csv_world \<Rightarrow> csv_world" where
  "handleUpload_rejected msg w =
     w\<lparr>isUploading := False,
       csv_log := csv_log w
         @ [ConsoleError (''CSV upload error: '' @ msg), ToastError (''Upload failed: '' @ msg)]\<rparr>"

text \<open>
  What can happen to a mounted \<open>CSVUpload\<close>: the user's actions, the timer firing, and
  promises settling. A user action is possible only while its control is rendered and not
  disabled: the dropzone is shown while no file is selected; the clear buttons, the
  settings toggle and the upload button are shown while a file is selected and carry
  \<open>disabled={isUploading}\<close>; the column input is shown inside the open settings. The timer
  fires only while it is running. A promise may settle at any time, with any outcome.
\<close>

datatype csv_event =
    Drop "js_file list"
  | ClickClear
  | ChangeColumnName string
  | ClickSettings
  | ClickUpload
  | UploadResolved "string option"
  | UploadRejected string
  | Tick
  | PollResolved nat progress_data
  | PollRejected string

fun enabled :: "csv_event \<Rightarrow> csv_world \<Rightarrow> bool" where
  "enabled (Drop fs) w = (selectedFile w = None)"
| "enabled ClickClear w = (selectedFile w \<noteq> None \<and> \<not> isUploading w)"
| "enabled (ChangeColumnName v) w =
     (selectedFile w \<noteq> None \<and> showSettings w \<and> \<not> isUploading w)"
| "enabled ClickSettings w = (selectedFile w \<noteq> None \<and> \<not> isUploading w)"
| "enabled ClickUpload w = (selectedFile w \<noteq> None \<and> \<not> isUploading w)"
| "enabled Tick w = (interval w \<noteq> None)"
| "enabled e w = True"

fun dispatch :: "csv_event \<Rightarrow> csv_world \<Rightarrow> csv_world" where
  "dispatch (Drop fs) w = onDrop fs w"
| "dispatch ClickClear w = clearFile w"
| "dispatch (ChangeColumnName v) w = w\<lparr>columnName := v\<rparr>"
| "dispatch ClickSettings w = w\<lparr>showSettings := \<not> showSettings w\<rparr>"
| "dispatch ClickUpload w = handleUpload w"
| "dispatch (UploadResolved task_id) w = handleUpload_resolved task_id w"
| "dispatch (UploadRejected msg) w = handleUpload_rejected msg w"
| "dispatch Tick w = (case interval w of None \<Rightarrow> w | Some tm \<Rightarrow> poll_tick tm w)"
| "dispatch (PollResolved i progressData) w = poll_resolved i progressData w"
| "dispatch (PollRejected msg) w = poll_rejected msg w"

definition step :: "csv_event \<Rightarrow> csv_world \<Rightarrow> csv_world" where
  "step e w = (if enabled e w then rerender w (dispatch e w) else w)"

fun run :: "csv_event list \<Rightarrow> csv_world \<Rightarrow> csv_world" where
  "run [] w = w"
| "run (e # es) w = run es (step e w)"

inductive reachable_csv :: "csv_world \<Rightarrow> bool" where
  rc_init: "reachable_csv csv_init"
| rc_step: "reachable_csv w \<Longrightarrow> reachable_csv (step e w)"

text \<open>
  The "Upload Results" section lists the failed URLs:
  \<^verbatim>\<open>
  {uploadResults.failed_urls.length > 0 && ( ...
      {uploadResults.failed_urls.slice(0, 10).map((url, index) => (<p ...>{url}</p>))}
      {uploadResults.failed_urls.length > 10 && (
        <p ...>... and {uploadResults.failed_urls.length - 10} more</p>)}
  )}
  \<close>
\<close>

definition listed_failed_urls :: "upload_results \<Rightarrow> string list" where
  "listed_failed_urls r =
     (if length (failed_urls r) > 0 then take 10 (failed_urls r) else [])"

definition more_failed_urls :: "upload_results \<Rightarrow> nat option" where
  "more_failed_urls r =
     (if length (failed_urls r) > 0 \<and> length (failed_urls r) > 10
      then Some (length (failed_urls r) - 10) else None)"

section \<open>getProgressPercentage\<close>


section \<open>The polling invariant and example inputs\<close>

text \<open>
  What the polling effect maintains: a timer runs exactly while \<open>taskId\<close> is set and
  \<open>isUploading\<close> is true, it has the period 2000 and polls the current \<open>taskId\<close>.
\<close>

definition poll_inv :: "csv_world \<Rightarrow> bool" where
  "poll_inv w =
     (case interval w of
        None \<Rightarrow> \<not> (task_set (taskId w) \<and> isUploading w)
      | Some tm \<Rightarrow>
          delay tm = 2000 \<and> taskId w = Some (polled_task tm) \<and> polled_task tm \<noteq> []
          \<and> isUploading w)"

text \<open>Inputs for the examples: a file, and two final progress reports.\<close>

abbreviation urls_csv :: js_file where
  "urls_csv \<equiv> \<lparr>file_name = ''urls.csv'', file_size = 120\<rparr>"

abbreviation job_done :: progress_data where
  "job_done \<equiv> \<lparr>status = ''completed'', current = 3, total_count = 3,
                 errors = [''http://img.example/missing.png''], current_url = None\<rparr>"

abbreviation all_failed :: progress_data where
  "all_failed \<equiv>
     \<lparr>status = ''completed'', current = 12, total_count = 12,
      errors = [''u01'', ''u02'', ''u03'', ''u04'', ''u05'', ''u06'', ''u07'', ''u08'', ''u09'',
                ''u10'', ''u11'', ''u12''],
      current_url = None\<rparr>"

section \<open>Properties of getProgressPercentage\<close>



lemma binexp_less:
  assumes "0 < x" and "x < 2 powi n"
  shows "binexp x < n"
proof -
  obtain p q where pq: "quotient_of x = (p, q)" by (cases "quotient_of x")
  then have q: "0 < q" and x: "x = of_int p / of_int q"
    by (simp_all add: quotient_of_denom_pos quotient_of_div)
  from x q \<open>0 < x\<close> have p: "0 < p" by (simp add: zero_less_divide_iff)
  define k where "k = bitlen p - bitlen q"
  have lt: "a < n" if "2 powi a \<le> x" for a
  proof (rule ccontr)
    assume "\<not> a < n"
    then have "(2::rat) powi n \<le> 2 powi a" by (simp add: power_int_increasing)
    with that assms(2) show False by simp
  qed
  have low: "(2::rat) powi (k - 1) \<le> x"
  proof -
    have bp: "2 ^ nat (bitlen p - 1) \<le> p" and bq: "q < 2 ^ nat (bitlen q)"
      using bitlen_bounds [OF p] bitlen_bounds [OF q] by simp_all
    have p1: "1 \<le> bitlen p" using p bitlen_eq_zero_iff [of p] bitlen_nonneg [of p] by linarith
    have q0: "0 \<le> bitlen q" by (rule bitlen_nonneg)
    have "(2::rat) powi (k - 1) = 2 powi (bitlen p - 1) / 2 powi (bitlen q)"
      unfolding k_def using power_int_diff [of "2::rat" "bitlen p - 1" "bitlen q"]
      by (simp add: algebra_simps)
    also have "\<dots> = 2 ^ nat (bitlen p - 1) / 2 ^ nat (bitlen q)"
      using p1 q0 by (simp add: power_int_def)
    also have "\<dots> \<le> of_int p / of_int q"
    proof -
      have a: "(2::rat) ^ nat (bitlen p - 1) \<le> of_int p"
        using bp by (metis of_int_le_iff of_int_numeral of_int_power)
      have b: "(of_int q :: rat) \<le> 2 ^ nat (bitlen q)"
        using bq by (metis less_imp_le of_int_le_iff of_int_numeral of_int_power)
      have c: "(0::rat) < of_int q" using q by simp
      have d: "(0::rat) \<le> of_int p" using p by simp
      show ?thesis by (rule frac_le [OF d a c b])
    qed
    finally show ?thesis using x by simp
  qed
  show ?thesis
  proof (cases "2 powi k \<le> x")
    case True
    then have "binexp x = k" by (simp add: binexp_def pq k_def)
    with lt [OF True] show ?thesis by simp
  next
    case False
    then have "binexp x = k - 1" by (simp add: binexp_def pq k_def)
    with lt [OF low] show ?thesis by simp
  qed
qed










text \<open>
  At 29 of 200 the double arithmetic shows: \<open>29 / 200\<close> rounds to a double just below
  \<open>0.145\<close>, its product with 100 to \<open>14.499999999999998\<close>, and \<open>Math.round\<close> gives 14
  (exact arithmetic would give 15).
\<close>


lemma fl_pos_eval:
  assumes "binexp x = e"
    and "round_half_even (x / 2 powi max (e - 52) (- 1074)) = n"
    and "of_int n * 2 powi max (e - 52) (- 1074) < (2::rat) ^ 1024"
  shows "fl_pos x = Fin (of_int n * 2 powi max (e - 52) (- 1074))"
  using assms by (simp add: fl_pos_def Let_def)



section \<open>Properties of the number model\<close>

text \<open>
  An integer below \<open>2^53\<close> in magnitude is a double: reading it, and computing a sum or
  difference that stays in that range, is exact.
\<close>

lemma round_half_even_of_int: "round_half_even (of_int m) = m"
  by (simp add: round_half_even_def)

lemma to_double_pos_int:
  assumes "0 < n" and "n < 2 ^ 53"
  shows "to_double (of_int n) = Fin (of_int n)"
proof -
  define x :: rat where "x = of_int n"
  have pos: "0 < x" using assms by (simp add: x_def)
  have "x < of_int (2 ^ 53)" unfolding x_def using assms(2) by (simp only: of_int_less_iff)
  then have lt: "x < 2 powi 53" by simp
  with pos have "binexp x < 53" by (rule binexp_less)
  define u where "u = max (binexp x - 52) (- 1074)"
  have u: "u \<le> 0" using \<open>binexp x < 53\<close> by (simp add: u_def)
  have pu: "(2::rat) powi u \<noteq> 0" by simp
  have inv: "(2::rat) powi u * 2 ^ nat (- u) = 1"
    using u power_int_add [of "2::rat" u "- u"] by (simp add: power_int_def)
  have "x / 2 powi u = x * 2 ^ nat (- u)"
    using inv pu by (simp add: field_simps)
  also have "\<dots> = of_int (n * 2 ^ nat (- u))" by (simp add: x_def)
  finally have r: "round_half_even (x / 2 powi u) = n * 2 ^ nat (- u)"
    by (simp only: round_half_even_of_int)
  have v: "of_int (n * 2 ^ nat (- u)) * 2 powi u = x"
    using inv by (simp add: x_def mult.assoc mult.commute)
  have small: "\<not> (2::rat) ^ 1024 \<le> x"
  proof -
    have "x < 2 ^ 53" using lt by simp
    also have "(2::rat) ^ 53 \<le> 2 ^ 1024" by (rule power_increasing) simp_all
    finally show ?thesis by simp
  qed
  have "fl_pos x =
      (if (2::rat) ^ 1024 \<le> of_int (round_half_even (x / 2 powi u)) * 2 powi u then PosInf
       else Fin (of_int (round_half_even (x / 2 powi u)) * 2 powi u))"
    by (simp add: fl_pos_def Let_def u_def)
  also have "\<dots> = (if (2::rat) ^ 1024 \<le> x then PosInf else Fin x)"
    by (simp only: r v)
  finally have "fl_pos x = Fin x" using small by simp
  then show ?thesis using pos by (simp add: to_double_def x_def)
qed

lemma to_double_int:
  assumes "\<bar>n\<bar> < 2 ^ 53"
  shows "to_double (of_int n) = Fin (of_int n)"
proof -
  consider "n = 0" | "0 < n" | "n < 0" by linarith
  then show ?thesis
  proof cases
    case 1
    then show ?thesis by (simp add: to_double_def)
  next
    case 2
    with assms show ?thesis by (intro to_double_pos_int) simp_all
  next
    case 3
    with assms have "to_double (of_int (- n)) = Fin (of_int (- n))"
      by (intro to_double_pos_int) simp_all
    with 3 show ?thesis by (simp add: to_double_def)
  qed
qed

lemma js_number_exact: "\<bar>n\<bar> < 2 ^ 53 \<Longrightarrow> js_number n = Fin (of_int n)"
  by (simp add: js_number_def to_double_int)

lemma js_sub_exact:
  assumes "\<bar>a\<bar> < 2 ^ 53" and "\<bar>b\<bar> < 2 ^ 53" and "\<bar>a - b\<bar> < 2 ^ 53"
  shows "js_sub (js_number a) (js_number b) = Fin (of_int (a - b))"
proof -
  have "js_sub (js_number a) (js_number b) = to_double (of_int a - of_int b)"
    using assms(1,2) by (simp add: js_number_exact)
  also have "\<dots> = to_double (of_int (a - b))" by simp
  also have "\<dots> = Fin (of_int (a - b))" using assms(3) by (rule to_double_int)
  finally show ?thesis .
qed

text \<open>Facts for evaluating the model on numerals.\<close>

lemma to_double_numeral:
  "(numeral k :: int) < 2 ^ 53 \<Longrightarrow> to_double (numeral k) = Fin (numeral k)"
  using to_double_int [of "numeral k"] by simp

lemma to_double_one: "to_double 1 = Fin 1"
  using to_double_int [of 1] by simp

lemma js_number_numeral:
  "(numeral k :: int) < 2 ^ 53 \<Longrightarrow> js_number (numeral k) = Fin (numeral k)"
  using js_number_exact [of "numeral k"] by simp

lemma js_number_zero_one: "js_number 0 = Fin 0" "js_number 1 = Fin 1"
  using js_number_exact [of 0] js_number_exact [of 1] by simp_all

lemma floor_numeral_div:
  "\<lfloor>numeral a / numeral b :: rat\<rfloor> = numeral a div numeral b"
  using floor_divide_of_int_eq [of "numeral a" "numeral b", where ?'a = rat] by simp

lemmas digits_eval =
  digits_k_def Let_def to_double_numeral to_double_one floor_numeral_div

lemma number_string_0: "js_number_to_string (Fin 0) = ''0''"
  by (simp add: js_number_to_string.simps)

lemma number_string_2: "js_number_to_string (Fin 2) = ''2''"
proof -
  have d: "dec_exp 2 = 1" by code_simp
  have s: "string_of_nat 2 = ''2''" by code_simp
  have k1: "digits_k 2 (Suc 0) = Some (2, 1)" by (simp add: digits_eval d)
  have "shortest_digits 2 = Some (2, 1)" by (simp add: shortest_digits_def k1)
  then show ?thesis by (simp add: js_number_to_string.simps s format_digits_def)
qed

lemma number_string_3: "js_number_to_string (Fin 3) = ''3''"
proof -
  have d: "dec_exp 3 = 1" by code_simp
  have s: "string_of_nat 3 = ''3''" by code_simp
  have k1: "digits_k 3 (Suc 0) = Some (3, 1)" by (simp add: digits_eval d)
  have "shortest_digits 3 = Some (3, 1)" by (simp add: shortest_digits_def k1)
  then show ?thesis by (simp add: js_number_to_string.simps s format_digits_def)
qed

lemma number_string_12: "js_number_to_string (Fin 12) = ''12''"
proof -
  have d: "dec_exp 12 = 2" by code_simp
  have s: "string_of_nat 12 = ''12''" by code_simp
  have k1: "digits_k 12 (Suc 0) = None" by (simp add: digits_eval d)
  have k2: "digits_k 12 2 = Some (12, 2)" by (simp add: digits_eval d)
  have "shortest_digits 12 = Some (12, 2)" by (simp add: shortest_digits_def k1 k2)
  then show ?thesis by (simp add: js_number_to_string.simps s format_digits_def)
qed

lemma number_string_500: "js_number_to_string (Fin 500) = ''500''"
proof -
  have d: "dec_exp 500 = 3" by code_simp
  have s: "string_of_nat 5 = ''5''" by code_simp
  have k1: "digits_k 500 (Suc 0) = Some (5, 3)" by (simp add: digits_eval d)
  have r: "replicate 2 CHR ''0'' = ''00''" by (simp add: numeral_2_eq_2)
  have "shortest_digits 500 = Some (5, 3)" by (simp add: shortest_digits_def k1)
  then show ?thesis by (simp add: js_number_to_string.simps s r format_digits_def)
qed

lemma number_string_502: "js_number_to_string (Fin 502) = ''502''"
proof -
  have d: "dec_exp 502 = 3" by code_simp
  have s: "string_of_nat 502 = ''502''" by code_simp
  have k1: "digits_k 502 (Suc 0) = None" by (simp add: digits_eval d)
  have k2: "digits_k 502 2 = None" by (simp add: digits_eval d)
  have k3: "digits_k 502 3 = Some (502, 3)" by (simp add: digits_eval d)
  have "shortest_digits 502 = Some (502, 3)" by (simp add: shortest_digits_def k1 k2 k3)
  then show ?thesis by (simp add: js_number_to_string.simps s format_digits_def)
qed

section \<open>Properties of the request functions\<close>

text \<open>
  The five request functions of \<open>services/api.js\<close> each target one REST endpoint:
  \<open>uploadImageAndSearch\<close> posts to \<open>/upload\<close>, \<open>searchImages\<close> to \<open>/search\<close>,
  \<open>indexImages\<close> to \<open>/index\<close>; \<open>getHealthStatus\<close> gets \<open>/health\<close> and
  \<open>getSystemStats\<close> gets \<open>/stats\<close>.
\<close>

theorem api_functions_endpoints:
  "req_method (uploadImageAndSearch f k) = POST \<and> url (uploadImageAndSearch f k) = ''/upload''
   \<and> req_method (searchImages q k) = POST \<and> url (searchImages q k) = ''/search''
   \<and> req_method (indexImages us b) = POST \<and> url (indexImages us b) = ''/index''
   \<and> req_method getHealthStatus = GET \<and> url getHealthStatus = ''/health''
   \<and> req_method getSystemStats = GET \<and> url getSystemStats = ''/stats''
   \<and> {url (uploadImageAndSearch f k), url (searchImages q k), url (indexImages us b),
       url getHealthStatus, url getSystemStats} = rest_endpoints"
  by (auto simp add: uploadImageAndSearch_def searchImages_def indexImages_def
      getHealthStatus_def getSystemStats_def rest_endpoints_def)

section \<open>Properties of the response interceptor\<close>

lemma new_Error_truthy:
  "truthy v \<Longrightarrow> new_Error v = (case js_to_string v of Some s \<Rightarrow> Error s | None \<Rightarrow> TypeError)"
  by (cases v) (simp_all add: new_Error_def)

text \<open>
  C5, as amended. The response interceptor throws \<open>new Error(v)\<close> for a value \<open>v\<close> chosen
  by precedence, each alternative being taken when it is truthy (not merely present): if
  the server responded, \<open>v\<close> is \<open>response.data.detail\<close> when that is truthy, otherwise
  \<open>response.data.message\<close> when that is truthy, otherwise the string \<open>'Server error: '\<close>
  followed by the status code; if the request was sent and no response came, the fixed
  "No response" text; otherwise the original message when truthy, and
  \<open>'An unexpected error occurred'\<close> if not. The surfaced message is the string conversion
  of \<open>v\<close>: \<open>v\<close> itself when it is a string, and for instance \<open>[object Object]\<close> for an
  object; where the conversion fails, a TypeError is thrown in place of the Error.
\<close>

theorem response_interceptor_precedence:
  "(response error = Some r \<and> truthy (js_get (data r) ''detail'')
      \<longrightarrow> response_interceptor error = new_Error (js_get (data r) ''detail''))
   \<and> (response error = Some r \<and> \<not> truthy (js_get (data r) ''detail'')
        \<and> truthy (js_get (data r) ''message'')
      \<longrightarrow> response_interceptor error = new_Error (js_get (data r) ''message''))
   \<and> (response error = Some r \<and> \<not> truthy (js_get (data r) ''detail'')
        \<and> \<not> truthy (js_get (data r) ''message'')
      \<longrightarrow> response_interceptor error
            = Error (''Server error: '' @ js_number_to_string (js_number (int (http_status r)))))
   \<and> (response error = None \<and> request error
      \<longrightarrow> response_interceptor error
            = Error ''No response from server. Please check your connection.'')
   \<and> (response error = None \<and> \<not> request error \<and> truthy (message error)
      \<longrightarrow> response_interceptor error = new_Error (message error))
   \<and> (response error = None \<and> \<not> request error \<and> \<not> truthy (message error)
      \<longrightarrow> response_interceptor error = Error ''An unexpected error occurred'')
   \<and> (truthy v
      \<longrightarrow> new_Error v = (case js_to_string v of Some s \<Rightarrow> Error s | None \<Rightarrow> TypeError))
   \<and> new_Error (JStr s) = Error s"
proof -
  have str: "new_Error (JStr t) = Error t" for t
    by (simp add: new_Error_def)
  show ?thesis
    using new_Error_truthy [of v]
    by (simp add: response_interceptor_def js_or_def str)
qed

text \<open>
  One rejected response for each branch: a \<open>detail\<close> that wins over a \<open>message\<close>, a
  \<open>message\<close> alone, a body that is not an object, no response at all, and an error that
  never sent a request, with and without a message of its own; then the validation error
  of the backend framework, whose \<open>detail\<close> is a list of objects, and a \<open>detail\<close> object
  with a \<open>toString\<close> property of its own.
\<close>

theorem response_interceptor_precedence_witness:
  "response_interceptor
     \<lparr>response = Some \<lparr>data = JObj [(''detail'', JStr ''File too large''), (''message'', JStr ''ignored'')],
                        http_status = 413\<rparr>,
      request = True, message = JStr ''Request failed with status code 413''\<rparr>
     = Error ''File too large''
   \<and> response_interceptor
     \<lparr>response = Some \<lparr>data = JObj [(''message'', JStr ''Index not ready'')], http_status = 503\<rparr>,
      request = True, message = JStr ''Request failed with status code 503''\<rparr>
     = Error ''Index not ready''
   \<and> response_interceptor
     \<lparr>response = Some \<lparr>data = JStr ''Bad Gateway'', http_status = 502\<rparr>,
      request = True, message = JStr ''Request failed with status code 502''\<rparr>
     = Error ''Server error: 502''
   \<and> response_interceptor
     \<lparr>response = None, request = True, message = JStr ''Network Error''\<rparr>
     = Error ''No response from server. Please check your connection.''
   \<and> response_interceptor
     \<lparr>response = None, request = False, message = JStr ''canceled''\<rparr>
     = Error ''canceled''
   \<and> response_interceptor
     \<lparr>response = None, request = False, message = JUndefined\<rparr>
     = Error ''An unexpected error occurred''
   \<and> response_interceptor
     \<lparr>response = Some \<lparr>data = JObj [(''detail'',
                          JArr [JObj [(''loc'', JArr [JStr ''body'', JStr ''query'']),
                                      (''msg'', JStr ''field required''),
                                      (''type'', JStr ''value_error.missing'')]])],
                        http_status = 422\<rparr>,
      request = True, message = JStr ''Request failed with status code 422''\<rparr>
     = Error ''[object Object]''
   \<and> response_interceptor
     \<lparr>response = Some \<lparr>data = JObj [(''detail'', JObj [(''toString'', JStr ''x'')])],
                        http_status = 400\<rparr>,
      request = True, message = JStr ''Request failed with status code 400''\<rparr>
     = TypeError"
proof -
  have n: "js_number 502 = Fin 502"
    by (simp add: js_number_numeral)
  show ?thesis
    using
      response_interceptor_precedence
        [of "\<lparr>response = Some \<lparr>data = JObj [(''detail'', JStr ''File too large''), (''message'', JStr ''ignored'')],
                        http_status = 413\<rparr>,
      request = True, message = JStr ''Request failed with status code 413''\<rparr>"
           "\<lparr>data = JObj [(''detail'', JStr ''File too large''), (''message'', JStr ''ignored'')],
                        http_status = 413\<rparr>" "JStr ''File too large''" "''File too large''"]
      response_interceptor_precedence
        [of "\<lparr>response = Some \<lparr>data = JObj [(''message'', JStr ''Index not ready'')], http_status = 503\<rparr>,
      request = True, message = JStr ''Request failed with status code 503''\<rparr>"
           "\<lparr>data = JObj [(''message'', JStr ''Index not ready'')], http_status = 503\<rparr>"
           "JStr ''Index not ready''" "''Index not ready''"]
      response_interceptor_precedence
        [of "\<lparr>response = Some \<lparr>data = JStr ''Bad Gateway'', http_status = 502\<rparr>,
      request = True, message = JStr ''Request failed with status code 502''\<rparr>"
           "\<lparr>data = JStr ''Bad Gateway'', http_status = 502\<rparr>" "JStr ''x''" "''x''"]
      response_interceptor_precedence
        [of "\<lparr>response = None, request = True, message = JStr ''Network Error''\<rparr>" _
           "JStr ''x''" "''x''"]
      response_interceptor_precedence
        [of "\<lparr>response = None, request = False, message = JStr ''canceled''\<rparr>" _
           "JStr ''canceled''" "''canceled''"]
      response_interceptor_precedence
        [of "\<lparr>response = None, request = False, message = JUndefined\<rparr>" _
           "JStr ''x''" "''x''"]
      response_interceptor_precedence
        [of "\<lparr>response = Some \<lparr>data = JObj [(''detail'',
                          JArr [JObj [(''loc'', JArr [JStr ''body'', JStr ''query'']),
                                      (''msg'', JStr ''field required''),
                                      (''type'', JStr ''value_error.missing'')]])],
                        http_status = 422\<rparr>,
      request = True, message = JStr ''Request failed with status code 422''\<rparr>"
           "\<lparr>data = JObj [(''detail'',
                          JArr [JObj [(''loc'', JArr [JStr ''body'', JStr ''query'']),
                                      (''msg'', JStr ''field required''),
                                      (''type'', JStr ''value_error.missing'')]])],
                        http_status = 422\<rparr>"
           "JArr [JObj [(''loc'', JArr [JStr ''body'', JStr ''query'']),
                                      (''msg'', JStr ''field required''),
                                      (''type'', JStr ''value_error.missing'')]]" "''x''"]
      response_interceptor_precedence
        [of "\<lparr>response = Some \<lparr>data = JObj [(''detail'', JObj [(''toString'', JStr ''x'')])],
                        http_status = 400\<rparr>,
      request = True, message = JStr ''Request failed with status code 400''\<rparr>"
           "\<lparr>data = JObj [(''detail'', JObj [(''toString'', JStr ''x'')])],
                        http_status = 400\<rparr>"
           "JObj [(''toString'', JStr ''x'')]" "''x''"]
    by (simp add: n number_string_502)
qed

text \<open>
  The claim as first stated takes \<open>response.data.detail\<close> whenever it is present, as the
  message. A response whose body is \<open>{"detail": ""}\<close> has the property, with the empty
  string as its value; \<open>||\<close> passes over it and the message is the status text. And a
  \<open>detail\<close> that is a list of objects is not the message either: the message is its
  string conversion.
\<close>

theorem interceptor_empty_detail_counterexample:
  "js_get (JObj [(''detail'', JStr [])]) ''detail'' \<noteq> JUndefined
   \<and> response_interceptor
        \<lparr>response = Some \<lparr>data = JObj [(''detail'', JStr [])], http_status = 500\<rparr>,
         request = True, message = JStr ''Request failed with status code 500''\<rparr>
       \<noteq> new_Error (js_get (JObj [(''detail'', JStr [])]) ''detail'')
   \<and> response_interceptor
        \<lparr>response = Some \<lparr>data = JObj [(''detail'', JStr [])], http_status = 500\<rparr>,
         request = True, message = JStr ''Request failed with status code 500''\<rparr>
       = Error ''Server error: 500''
   \<and> response_interceptor
        \<lparr>response = Some \<lparr>data = JObj [(''detail'', JArr [JObj [(''msg'', JStr ''field required'')]])],
                           http_status = 422\<rparr>,
         request = True, message = JStr ''Request failed with status code 422''\<rparr>
       = Error ''[object Object]''"
proof -
  have n: "js_number 500 = Fin 500"
    by (simp add: js_number_numeral)
  show ?thesis
    by (simp add: response_interceptor_def js_or_def new_Error_def n number_string_500)
qed

section \<open>Properties of the tabbed App\<close>

lemma reachable_app_activeTab:
  "reachable_app s \<Longrightarrow> activeTab s \<in> tab_names"
proof (induction rule: reachable_app.induct)
  case ra_init
  show ?case by (simp add: app_init_def tab_names_def)
next
  case (ra_start s)
  then show ?case by (simp add: handleSearchStart_def)
next
  case (ra_complete s results)
  then show ?case by (simp add: handleSearchComplete_def)
next
  case (ra_tab_image s)
  then show ?case by (simp add: switchTab_def tab_names_def)
next
  case (ra_tab_text s)
  then show ?case by (simp add: switchTab_def tab_names_def)
next
  case (ra_tab_csv s)
  then show ?case by (simp add: switchTab_def tab_names_def)
qed

text \<open>
  C7. A call of \<open>switchTab\<close> while \<open>isLoading\<close> is true leaves the whole state (so the
  active tab and the search results) as it was; while \<open>isLoading\<close> is false it makes the
  requested tab the active one and resets \<open>searchResults\<close> to \<open>null\<close>; and in every
  reachable state \<open>activeTab\<close> is one of \<open>'image'\<close>, \<open>'text'\<close>, \<open>'csv'\<close>.
\<close>

theorem switchTab_spec:
  "(isLoading s \<longrightarrow> switchTab tab s = s)
   \<and> (\<not> isLoading s \<longrightarrow>
        activeTab (switchTab tab s) = tab
        \<and> searchResults (switchTab tab s) = None
        \<and> isLoading (switchTab tab s) = isLoading s)
   \<and> (reachable_app s \<longrightarrow> activeTab s \<in> {''image'', ''text'', ''csv''})"
  using reachable_app_activeTab [of s]
  by (simp add: switchTab_def tab_names_def)

theorem switchTab_spec_witness:
  "isLoading (handleSearchStart (app_init :: unit app_state))
   \<and> switchTab ''csv'' (handleSearchStart (app_init :: unit app_state))
       = handleSearchStart app_init
   \<and> \<not> isLoading (handleSearchComplete (Some ()) app_init)
   \<and> activeTab (switchTab ''text'' (handleSearchComplete (Some ()) app_init)) = ''text''
   \<and> searchResults (switchTab ''text'' (handleSearchComplete (Some ()) app_init)) = None
   \<and> reachable_app (handleSearchStart (app_init :: unit app_state))
   \<and> activeTab (handleSearchStart (app_init :: unit app_state))
       \<in> {''image'', ''text'', ''csv''}"
proof -
  have r: "reachable_app (handleSearchStart (app_init :: unit app_state))"
    by (rule ra_start) (rule ra_init)
  have l: "isLoading (handleSearchStart (app_init :: unit app_state))"
    by (simp add: handleSearchStart_def)
  have n: "\<not> isLoading (handleSearchComplete (Some ()) (app_init :: unit app_state))"
    by (simp add: handleSearchComplete_def)
  show ?thesis
    using r l n
      switchTab_spec [of "handleSearchStart (app_init :: unit app_state)" "''csv''"]
      switchTab_spec [of "handleSearchComplete (Some ()) (app_init :: unit app_state)" "''text''"]
    by simp
qed

section \<open>Properties of the precondition guards\<close>

lemma all_dropWhile: "(\<forall>x\<in>set (dropWhile P s). P x) \<longleftrightarrow> (\<forall>c\<in>set s. P c)"
  by (induction s) auto

lemma js_trim_empty_iff: "js_trim s = [] \<longleftrightarrow> list_all js_whitespace s"
  by (simp add: js_trim_def dropWhile_eq_Nil_conv all_dropWhile list_all_iff)

text \<open>
  C9. A handler whose precondition fails only shows an error toast: the image search
  with no image selected, the text search with an empty or all-white-space query, and the
  CSV upload with no file selected or with a blank column name each return the state they
  were given, with the toast (for the text search after \<open>e.preventDefault()\<close>) as the
  only addition to the log. So no API call is made, and \<open>isLoading\<close>, the results and all
  other state, the polling timer included, stay as they were.
\<close>

theorem guards_change_nothing:
  "(selectedImage iw = None \<longrightarrow>
      ImageUpload_handleSearch iw
        = iw\<lparr>image_log := image_log iw @ [ToastError ''Please select an image first'']\<rparr>)
   \<and> (list_all js_whitespace (query tw) \<longrightarrow>
      TextSearch_handleSearch tw
        = tw\<lparr>text_log := text_log tw
               @ [PreventDefault, ToastError ''Please enter a search query'']\<rparr>)
   \<and> (selectedFile cw = None \<longrightarrow>
      handleUpload cw = cw\<lparr>csv_log := csv_log cw @ [ToastError ''Please select a file first'']\<rparr>
      \<and> rerender cw (handleUpload cw) = handleUpload cw)
   \<and> (selectedFile cw \<noteq> None \<and> list_all js_whitespace (columnName cw) \<longrightarrow>
      handleUpload cw
        = cw\<lparr>csv_log := csv_log cw
               @ [ToastError ''Please specify the column name containing URLs'']\<rparr>
      \<and> rerender cw (handleUpload cw) = handleUpload cw)"
  by (auto simp add: ImageUpload_handleSearch_def TextSearch_handleSearch_def
      handleUpload_def rerender_def js_trim_empty_iff)

theorem guards_change_nothing_witness:
  "selectedImage \<lparr>image_app = app_init, selectedImage = None, previewUrl = None, image_log = []\<rparr> = None
   \<and> ImageUpload_handleSearch
        \<lparr>image_app = app_init, selectedImage = None, previewUrl = None, image_log = []\<rparr>
      = \<lparr>image_app = app_init, selectedImage = None, previewUrl = None,
         image_log = [ToastError ''Please select an image first'']\<rparr>
   \<and> list_all js_whitespace (query \<lparr>text_app = app_init, query = ''  '', text_log = []\<rparr>)
   \<and> TextSearch_handleSearch \<lparr>text_app = app_init, query = ''  '', text_log = []\<rparr>
      = \<lparr>text_app = app_init, query = ''  '',
         text_log = [PreventDefault, ToastError ''Please enter a search query'']\<rparr>
   \<and> selectedFile csv_init = None
   \<and> csv_log (handleUpload csv_init) = [ToastError ''Please select a file first'']
   \<and> selectedFile (csv_init\<lparr>selectedFile := Some \<lparr>file_name = ''urls.csv'', file_size = 120\<rparr>,
                              columnName := '' ''\<rparr>) \<noteq> None
   \<and> list_all js_whitespace
       (columnName (csv_init\<lparr>selectedFile := Some \<lparr>file_name = ''urls.csv'', file_size = 120\<rparr>,
                              columnName := '' ''\<rparr>))
   \<and> csv_log (handleUpload (csv_init\<lparr>selectedFile := Some \<lparr>file_name = ''urls.csv'', file_size = 120\<rparr>,
                              columnName := '' ''\<rparr>))
      = [ToastError ''Please specify the column name containing URLs'']"
proof -
  have ws: "js_whitespace CHR '' ''" by (simp add: js_whitespace_def)
  show ?thesis
    using ws
      guards_change_nothing
        [of "\<lparr>image_app = app_init, selectedImage = None, previewUrl = None, image_log = []\<rparr>"
            "\<lparr>text_app = app_init, query = ''  '', text_log = []\<rparr>"
            csv_init]
      guards_change_nothing
        [of "\<lparr>image_app = app_init, selectedImage = None, previewUrl = None, image_log = []\<rparr>"
            "\<lparr>text_app = app_init, query = ''  '', text_log = []\<rparr>"
            "csv_init\<lparr>selectedFile := Some \<lparr>file_name = ''urls.csv'', file_size = 120\<rparr>,
                              columnName := '' ''\<rparr>"]
    by (simp add: csv_init_def)
qed

section \<open>Properties of the failure paths\<close>

text \<open>
  C4, as amended. A failed image search, a failed text search and a failed start of a CSV
  upload each log the error to the console and call \<open>toast.error\<close> with a fixed prefix
  followed by the error's message (\<open>'Search failed: '\<close>, \<open>'Search failed: '\<close>,
  \<open>'Upload failed: '\<close>). A failed progress poll is only logged to the console: no toast is
  shown, and the rest of the state, the running timer included, is unchanged, so polling
  goes on.
\<close>

theorem failures_surfaced:
  "image_log (ImageUpload_handleSearch_rejected msg iw)
     = image_log iw @ [ConsoleError (''Search error: '' @ msg), ToastError (''Search failed: '' @ msg)]
   \<and> text_log (TextSearch_handleSearch_rejected msg tw)
     = text_log tw
         @ [ConsoleError (''Text search error: '' @ msg), ToastError (''Search failed: '' @ msg)]
   \<and> csv_log (step (UploadRejected msg) cw)
     = csv_log cw
         @ [ConsoleError (''CSV upload error: '' @ msg), ToastError (''Upload failed: '' @ msg)]
   \<and> step (PollRejected msg) cw
     = cw\<lparr>csv_log := csv_log cw @ [ConsoleError (''Error fetching progress: '' @ msg)]\<rparr>"
  by (simp add: ImageUpload_handleSearch_rejected_def TextSearch_handleSearch_rejected_def
      step_def rerender_def handleUpload_rejected_def poll_rejected_def
      poll_effect_def poll_cleanup_def split: option.split)

text \<open>
  The claim as first stated has a failed progress poll surface as a toast. With a job
  running (file dropped, upload started, task id received, first poll sent), a poll that
  fails adds one console line to the log and no toast: the only toast ever shown is the
  "Upload started" one.
\<close>

theorem poll_failure_counterexample:
  "isUploading
     (run [Drop [\<lparr>file_name = ''urls.csv'', file_size = 120\<rparr>], ClickUpload,
           UploadResolved (Some ''t1''), Tick] csv_init)
   \<and> csv_log
     (run [Drop [\<lparr>file_name = ''urls.csv'', file_size = 120\<rparr>], ClickUpload,
           UploadResolved (Some ''t1''), Tick,
           PollRejected ''No response from server. Please check your connection.''] csv_init)
     = [Call (UploadCSVWithProgress \<lparr>file_name = ''urls.csv'', file_size = 120\<rparr> ''url''),
        ToastSuccess ''Upload started! Processing images...'',
        Call (GetUploadProgress ''t1''),
        ConsoleError ''Error fetching progress: No response from server. Please check your connection.'']
   \<and> filter is_toast (csv_log
     (run [Drop [\<lparr>file_name = ''urls.csv'', file_size = 120\<rparr>], ClickUpload,
           UploadResolved (Some ''t1''), Tick,
           PollRejected ''No response from server. Please check your connection.''] csv_init))
     = [ToastSuccess ''Upload started! Processing images...'']"
  by (simp add: csv_init_def step_def rerender_def onDrop_def handleUpload_def
      handleUpload_resolved_def poll_tick_def poll_rejected_def poll_effect_def poll_cleanup_def
      js_trim_def js_whitespace_def)

section \<open>Properties of the polling loop\<close>

lemma poll_inv_init: "poll_inv csv_init"
  by (simp add: poll_inv_def csv_init_def task_set_def)

lemma poll_inv_effect: "poll_inv (poll_effect (poll_cleanup w))"
  by (simp add: poll_inv_def poll_effect_def poll_cleanup_def task_set_def split: option.split)

lemma poll_inv_rerender:
  assumes "taskId a = taskId b \<and> isUploading a = isUploading b \<longrightarrow> poll_inv a"
  shows "poll_inv (rerender b a)"
  using assms by (auto simp add: rerender_def poll_inv_effect)

lemma poll_inv_step: "poll_inv w \<Longrightarrow> poll_inv (step e w)"
proof (cases "enabled e w")
  case False
  assume "poll_inv w"
  with False show ?thesis by (simp add: step_def)
next
  case True
  assume inv: "poll_inv w"
  have "taskId (dispatch e w) = taskId w \<and> isUploading (dispatch e w) = isUploading w
        \<longrightarrow> poll_inv (dispatch e w)"
  proof (cases e)
    case (PollResolved i d)
    with inv show ?thesis
      by (auto simp add: poll_inv_def poll_resolved_def clearInterval_def Let_def task_set_def
          split: option.splits if_splits)
  next
    case Tick
    with inv show ?thesis
      by (auto simp add: poll_inv_def poll_tick_def split: option.splits)
  qed (use inv in \<open>auto simp add: poll_inv_def onDrop_def clearFile_def handleUpload_def
        handleUpload_resolved_def handleUpload_rejected_def poll_rejected_def
        split: option.splits list.splits if_splits\<close>)
  then show ?thesis using True by (simp add: step_def poll_inv_rerender)
qed

lemma reachable_poll_inv: "reachable_csv w \<Longrightarrow> poll_inv w"
  by (induction rule: reachable_csv.induct) (simp_all add: poll_inv_init poll_inv_step)

lemma rerender_log: "csv_log (rerender b a) = csv_log a"
  by (simp add: rerender_def poll_effect_def poll_cleanup_def split: option.split)

lemma dispatch_no_poll:
  "e \<noteq> Tick \<Longrightarrow> filter is_poll (csv_log (dispatch e w)) = filter is_poll (csv_log w)"
  by (cases e) (auto simp add: onDrop_def clearFile_def handleUpload_def
        handleUpload_resolved_def handleUpload_rejected_def poll_rejected_def poll_resolved_def
        clearInterval_def Let_def split: option.splits list.splits)

lemma step_no_poll:
  "interval w = None \<Longrightarrow> filter is_poll (csv_log (step e w)) = filter is_poll (csv_log w)"
  by (cases "e = Tick") (simp_all add: step_def rerender_log dispatch_no_poll)


lemmas csv_eval =
  csv_init_def step_def rerender_def onDrop_def handleUpload_def handleUpload_resolved_def
  handleUpload_rejected_def poll_tick_def poll_rejected_def poll_resolved_def clearInterval_def
  poll_effect_def poll_cleanup_def js_trim_def js_whitespace_def task_set_def Let_def

text \<open>
  C1. In every state a mounted \<open>CSVUpload\<close> can reach: while a task identifier is set
  (\<open>taskId\<close> is a non-empty string) and the upload is in progress, a timer made by
  \<open>setInterval\<close> runs with the period 2000 ms for that task, and each time it fires one
  progress request for that task is issued; when no task identifier is set or the upload
  is not in progress no timer runs, and whatever happens next issues no progress request.
\<close>

theorem polling_interval:
  "reachable_csv w \<Longrightarrow>
     (taskId w = Some t \<and> t \<noteq> [] \<and> isUploading w \<longrightarrow>
        (\<exists>i. interval w = Some \<lparr>timer_id = i, delay = 2000, polled_task = t\<rparr>)
        \<and> csv_log (step Tick w) = csv_log w @ [Call (GetUploadProgress t)])
     \<and> (\<not> (task_set (taskId w) \<and> isUploading w) \<longrightarrow>
        interval w = None
        \<and> filter is_poll (csv_log (step e w)) = filter is_poll (csv_log w))"
proof -
  assume "reachable_csv w"
  then have inv: "poll_inv w" by (rule reachable_poll_inv)
  have a: "(\<exists>i. interval w = Some \<lparr>timer_id = i, delay = 2000, polled_task = t\<rparr>)
        \<and> csv_log (step Tick w) = csv_log w @ [Call (GetUploadProgress t)]"
    if h: "taskId w = Some t \<and> t \<noteq> [] \<and> isUploading w"
  proof -
    from inv h obtain tm where tm: "interval w = Some tm" "delay tm = 2000" "polled_task tm = t"
      by (auto simp add: poll_inv_def task_set_def split: option.splits)
    then have "tm = \<lparr>timer_id = timer_id tm, delay = 2000, polled_task = t\<rparr>" by simp
    with tm(1) have "\<exists>i. interval w = Some \<lparr>timer_id = i, delay = 2000, polled_task = t\<rparr>"
      by metis
    moreover have "csv_log (step Tick w) = csv_log w @ [Call (GetUploadProgress t)]"
      using tm by (simp add: step_def rerender_log poll_tick_def)
    ultimately show ?thesis by simp
  qed
  have b: "interval w = None
        \<and> filter is_poll (csv_log (step e w)) = filter is_poll (csv_log w)"
    if h: "\<not> (task_set (taskId w) \<and> isUploading w)"
  proof -
    from inv h have "interval w = None"
      by (auto simp add: poll_inv_def task_set_def split: option.splits)
    then show ?thesis by (simp add: step_no_poll)
  qed
  from a b show ?thesis by blast
qed

theorem polling_interval_witness:
  "reachable_csv (run [Drop [urls_csv], ClickUpload, UploadResolved (Some ''t1'')] csv_init)
   \<and> taskId (run [Drop [urls_csv], ClickUpload, UploadResolved (Some ''t1'')] csv_init) = Some ''t1''
   \<and> isUploading (run [Drop [urls_csv], ClickUpload, UploadResolved (Some ''t1'')] csv_init)
   \<and> interval (run [Drop [urls_csv], ClickUpload, UploadResolved (Some ''t1'')] csv_init)
       = Some \<lparr>timer_id = 0, delay = 2000, polled_task = ''t1''\<rparr>
   \<and> csv_log (step Tick (run [Drop [urls_csv], ClickUpload, UploadResolved (Some ''t1'')] csv_init))
       = csv_log (run [Drop [urls_csv], ClickUpload, UploadResolved (Some ''t1'')] csv_init)
           @ [Call (GetUploadProgress ''t1'')]
   \<and> reachable_csv (run [Drop [urls_csv], ClickUpload] csv_init)
   \<and> \<not> task_set (taskId (run [Drop [urls_csv], ClickUpload] csv_init))
   \<and> isUploading (run [Drop [urls_csv], ClickUpload] csv_init)
   \<and> interval (run [Drop [urls_csv], ClickUpload] csv_init) = None
   \<and> filter is_poll (csv_log (step Tick (run [Drop [urls_csv], ClickUpload] csv_init))) = []"
proof -
  have r2: "reachable_csv (run [Drop [urls_csv], ClickUpload] csv_init)"
    using rc_step [OF rc_step [OF rc_init, of "Drop [urls_csv]"], of ClickUpload] by simp
  have r3: "reachable_csv (run [Drop [urls_csv], ClickUpload, UploadResolved (Some ''t1'')] csv_init)"
    using rc_step [OF rc_step [OF rc_step [OF rc_init, of "Drop [urls_csv]"], of ClickUpload],
        of "UploadResolved (Some ''t1'')"] by simp
  have s3: "taskId (run [Drop [urls_csv], ClickUpload, UploadResolved (Some ''t1'')] csv_init) = Some ''t1''
     \<and> isUploading (run [Drop [urls_csv], ClickUpload, UploadResolved (Some ''t1'')] csv_init)
     \<and> interval (run [Drop [urls_csv], ClickUpload, UploadResolved (Some ''t1'')] csv_init)
       = Some \<lparr>timer_id = 0, delay = 2000, polled_task = ''t1''\<rparr>"
    by (simp add: csv_eval)
  have s2: "\<not> task_set (taskId (run [Drop [urls_csv], ClickUpload] csv_init))
     \<and> isUploading (run [Drop [urls_csv], ClickUpload] csv_init)
     \<and> filter is_poll (csv_log (run [Drop [urls_csv], ClickUpload] csv_init)) = []"
    by (simp add: csv_eval)
  show ?thesis
    using r2 r3 s2 s3
      polling_interval [OF r3, of "''t1''" Tick]
      polling_interval [OF r2, of "''t1''" Tick]
    by simp
qed

text \<open>
  C2. After the terminal status of a task has been seen (\<open>isUploading\<close> is false, the
  timer cleared), a click on the upload button, still enabled for the same file, sets
  \<open>isUploading\<close> while \<open>taskId\<close> still holds the finished task: \<open>handleUpload\<close> does not
  reset it, as \<open>onDrop\<close> and \<open>clearFile\<close> do. The effect starts a new timer for the
  finished task, and a tick that comes before the new upload request has been answered
  polls the finished task again. Its \<open>completed\<close> answer then ends the upload, so the
  task id of the new job arrives with \<open>isUploading\<close> false and the new job is never polled.
\<close>

theorem finished_task_polled_again:
  "isUploading (run [Drop [urls_csv], ClickUpload, UploadResolved (Some ''t1''), Tick,
                     PollResolved 0 job_done] csv_init) = False
   \<and> interval (run [Drop [urls_csv], ClickUpload, UploadResolved (Some ''t1''), Tick,
                     PollResolved 0 job_done] csv_init) = None
   \<and> csv_log (run [Drop [urls_csv], ClickUpload, UploadResolved (Some ''t1''), Tick,
                    PollResolved 0 job_done, ClickUpload, Tick] csv_init)
     = [Call (UploadCSVWithProgress urls_csv ''url''),
        ToastSuccess ''Upload started! Processing images...'',
        Call (GetUploadProgress ''t1''),
        ToastSuccess ''Successfully indexed 2 images!'',
        Call (UploadCSVWithProgress urls_csv ''url''),
        Call (GetUploadProgress ''t1'')]
   \<and> taskId (run [Drop [urls_csv], ClickUpload, UploadResolved (Some ''t1''), Tick,
                  PollResolved 0 job_done, ClickUpload, Tick, PollResolved 1 job_done,
                  UploadResolved (Some ''t2'')] csv_init) = Some ''t2''
   \<and> isUploading (run [Drop [urls_csv], ClickUpload, UploadResolved (Some ''t1''), Tick,
                  PollResolved 0 job_done, ClickUpload, Tick, PollResolved 1 job_done,
                  UploadResolved (Some ''t2'')] csv_init) = False
   \<and> interval (run [Drop [urls_csv], ClickUpload, UploadResolved (Some ''t1''), Tick,
                  PollResolved 0 job_done, ClickUpload, Tick, PollResolved 1 job_done,
                  UploadResolved (Some ''t2'')] csv_init) = None"
proof -
  have n: "js_number 3 = Fin 3" "js_number 1 = Fin 1" "to_double 2 = Fin 2"
    by (simp_all add: js_number_numeral js_number_zero_one to_double_numeral)
  show ?thesis by (simp add: csv_eval n number_string_2 number_string_3)
qed

section \<open>Properties of the completion branch\<close>

lemma rerender_state:
  "uploadResults (rerender b a) = uploadResults a"
  "isUploading (rerender b a) = isUploading a"
  by (simp_all add: rerender_def poll_effect_def poll_cleanup_def split: option.split)

lemma clearInterval_state:
  "uploadResults (clearInterval i w) = uploadResults w"
  "isUploading (clearInterval i w) = isUploading w"
  "csv_log (clearInterval i w) = csv_log w"
  by (simp_all add: clearInterval_def split: option.split)

lemma poll_resolved_completed:
  assumes "status d = ''completed''"
  shows "uploadResults (poll_resolved i d w)
       = Some \<lparr>result_message =
                 ''Processing completed! ''
                   @ js_number_to_string
                       (js_sub (js_number (current d)) (js_number (int (length (errors d)))))
                   @ ''/'' @ js_number_to_string (js_number (total_count d))
                   @ '' images indexed successfully.'',
               total_urls = js_number (total_count d),
               successful_indexes =
                 js_sub (js_number (current d)) (js_number (int (length (errors d)))),
               failed_urls = errors d,
               processing_time = None\<rparr>"
    and "isUploading (poll_resolved i d w) = False"
    and "csv_log (poll_resolved i d w)
       = csv_log w
           @ [ToastSuccess (''Successfully indexed ''
                @ js_number_to_string
                    (js_sub (js_number (current d)) (js_number (int (length (errors d)))))
                @ '' images!'')]"
  using assms by (simp_all add: poll_resolved_def Let_def clearInterval_state)

text \<open>
  Above \<open>2^53\<close> the subtraction is no longer exact: \<open>9007199254740994 - 1\<close> is
  \<open>9007199254740992\<close>.
\<close>

lemma double_subtraction_above_2_53:
  "js_sub (js_number 9007199254740994) (js_number 1) = Fin 9007199254740992"
proof -
  have b1: "binexp 9007199254740994 = 53" by code_simp
  have r1: "round_half_even (9007199254740994 / 2 powi max (53 - 52) (- 1074))
              = 4503599627370497" by code_simp
  have "fl_pos 9007199254740994
          = Fin (of_int 4503599627370497 * 2 powi max (53 - 52) (- 1074))"
    using b1 r1 by (rule fl_pos_eval) simp
  then have n: "js_number 9007199254740994 = Fin 9007199254740994"
    by (simp add: js_number_def to_double_def)
  have b2: "binexp 9007199254740993 = 53" by code_simp
  have r2: "round_half_even (9007199254740993 / 2 powi max (53 - 52) (- 1074))
              = 4503599627370496" by code_simp
  have "fl_pos 9007199254740993
          = Fin (of_int 4503599627370496 * 2 powi max (53 - 52) (- 1074))"
    using b2 r2 by (rule fl_pos_eval) simp
  then have s: "to_double 9007199254740993 = Fin 9007199254740992"
    by (simp add: to_double_def)
  show ?thesis by (simp add: n js_number_zero_one s)
qed

text \<open>
  C6. When a poll reports \<open>completed\<close> the job counts as a success whatever the errors
  list holds: the upload ends, a success toast is shown, and the result records
  \<open>successful_indexes\<close> as \<open>current\<close> minus the number of reported errors, computed as
  JavaScript subtracts numbers (exactly, while the counts stay below \<open>2^53\<close>), and
  \<open>failed_urls\<close> as the reported errors; the results section lists the first ten of
  them and counts the rest. Nothing is sent again: the completion adds no API call to the
  log, and neither does a failed poll or a failed upload request.
\<close>

theorem completed_job_results:
  "status d = ''completed'' \<Longrightarrow>
     uploadResults (step (PollResolved i d) w)
       = Some \<lparr>result_message =
                 ''Processing completed! ''
                   @ js_number_to_string
                       (js_sub (js_number (current d)) (js_number (int (length (errors d)))))
                   @ ''/'' @ js_number_to_string (js_number (total_count d))
                   @ '' images indexed successfully.'',
               total_urls = js_number (total_count d),
               successful_indexes =
                 js_sub (js_number (current d)) (js_number (int (length (errors d)))),
               failed_urls = errors d,
               processing_time = None\<rparr>
     \<and> (\<bar>current d\<bar> < 2 ^ 53 \<and> length (errors d) < 2 ^ 32
          \<and> \<bar>current d - int (length (errors d))\<bar> < 2 ^ 53 \<longrightarrow>
        map_option successful_indexes (uploadResults (step (PollResolved i d) w))
          = Some (Fin (of_int (current d - int (length (errors d))))))
     \<and> map_option listed_failed_urls (uploadResults (step (PollResolved i d) w))
       = Some (take 10 (errors d))
     \<and> map_option more_failed_urls (uploadResults (step (PollResolved i d) w))
       = Some (if 10 < length (errors d) then Some (length (errors d) - 10) else None)
     \<and> isUploading (step (PollResolved i d) w) = False
     \<and> csv_log (step (PollResolved i d) w)
       = csv_log w
           @ [ToastSuccess (''Successfully indexed ''
                @ js_number_to_string
                    (js_sub (js_number (current d)) (js_number (int (length (errors d)))))
                @ '' images!'')]
     \<and> filter is_call (csv_log (step (PollRejected msg) w)) = filter is_call (csv_log w)
     \<and> filter is_call (csv_log (step (UploadRejected msg) w)) = filter is_call (csv_log w)"
proof -
  assume c: "status d = ''completed''"
  have en: "enabled (PollResolved i d) w" "enabled (PollRejected msg) w"
    "enabled (UploadRejected msg) w" by simp_all
  have res: "uploadResults (step (PollResolved i d) w) = uploadResults (poll_resolved i d w)"
    and upl: "isUploading (step (PollResolved i d) w) = isUploading (poll_resolved i d w)"
    and lg: "csv_log (step (PollResolved i d) w) = csv_log (poll_resolved i d w)"
    using en by (simp_all add: step_def rerender_state rerender_log)
  note pr = poll_resolved_completed [OF c, of i w]
  have exact: "map_option successful_indexes (uploadResults (step (PollResolved i d) w))
          = Some (Fin (of_int (current d - int (length (errors d)))))"
    if h: "\<bar>current d\<bar> < 2 ^ 53 \<and> length (errors d) < 2 ^ 32
          \<and> \<bar>current d - int (length (errors d))\<bar> < 2 ^ 53"
  proof -
    have "int (length (errors d)) < 2 ^ 32" using h by (simp add: zless_nat_eq_int_zless)
    also have "(2::int) ^ 32 < 2 ^ 53" by simp
    finally have "\<bar>int (length (errors d))\<bar> < 2 ^ 53" by simp
    with h have "js_sub (js_number (current d)) (js_number (int (length (errors d))))
        = Fin (of_int (current d - int (length (errors d))))"
      by (intro js_sub_exact) simp_all
    then show ?thesis by (simp add: res pr(1))
  qed
  have listed: "map_option listed_failed_urls (uploadResults (step (PollResolved i d) w))
       = Some (take 10 (errors d))"
    by (simp add: res pr(1) listed_failed_urls_def)
  have more: "map_option more_failed_urls (uploadResults (step (PollResolved i d) w))
       = Some (if 10 < length (errors d) then Some (length (errors d) - 10) else None)"
    by (simp add: res pr(1) more_failed_urls_def)
  have calls: "filter is_call (csv_log (step (PollRejected msg) w)) = filter is_call (csv_log w)"
    "filter is_call (csv_log (step (UploadRejected msg) w)) = filter is_call (csv_log w)"
    using en by (simp_all add: step_def rerender_log poll_rejected_def handleUpload_rejected_def)
  from exact listed more calls show ?thesis
    by (simp add: res upl lg pr)
qed

text \<open>
  A running job whose twelve rows all failed ends with a success toast, no successful
  index, the first ten URLs listed and two more counted.
\<close>

theorem completed_job_results_witness:
  "status all_failed = ''completed''
   \<and> \<bar>current all_failed\<bar> < 2 ^ 53 \<and> length (errors all_failed) < 2 ^ 32
   \<and> \<bar>current all_failed - int (length (errors all_failed))\<bar> < 2 ^ 53
   \<and> uploadResults
        (step (PollResolved 0 all_failed)
           (run [Drop [urls_csv], ClickUpload, UploadResolved (Some ''t1''), Tick] csv_init))
       = Some \<lparr>result_message = ''Processing completed! 0/12 images indexed successfully.'',
               total_urls = Fin 12, successful_indexes = Fin 0,
               failed_urls = [''u01'', ''u02'', ''u03'', ''u04'', ''u05'', ''u06'', ''u07'', ''u08'',
                              ''u09'', ''u10'', ''u11'', ''u12''],
               processing_time = None\<rparr>
   \<and> map_option listed_failed_urls
        (uploadResults
           (step (PollResolved 0 all_failed)
              (run [Drop [urls_csv], ClickUpload, UploadResolved (Some ''t1''), Tick] csv_init)))
       = Some [''u01'', ''u02'', ''u03'', ''u04'', ''u05'', ''u06'', ''u07'', ''u08'', ''u09'', ''u10'']
   \<and> map_option more_failed_urls
        (uploadResults
           (step (PollResolved 0 all_failed)
              (run [Drop [urls_csv], ClickUpload, UploadResolved (Some ''t1''), Tick] csv_init)))
       = Some (Some 2)
   \<and> csv_log
        (step (PollResolved 0 all_failed)
           (run [Drop [urls_csv], ClickUpload, UploadResolved (Some ''t1''), Tick] csv_init))
       = [Call (UploadCSVWithProgress urls_csv ''url''),
          ToastSuccess ''Upload started! Processing images...'',
          Call (GetUploadProgress ''t1''),
          ToastSuccess ''Successfully indexed 0 images!'']"
proof -
  have c: "status all_failed = ''completed''" by simp
  have n: "js_number 12 = Fin 12" "to_double 0 = Fin 0"
    by (simp_all add: js_number_numeral to_double_def)
  have l: "csv_log (run [Drop [urls_csv], ClickUpload, UploadResolved (Some ''t1''), Tick] csv_init)
      = [Call (UploadCSVWithProgress urls_csv ''url''),
         ToastSuccess ''Upload started! Processing images...'',
         Call (GetUploadProgress ''t1'')]"
    by (simp add: csv_eval)
  show ?thesis
    using l completed_job_results [OF c, of 0
        "run [Drop [urls_csv], ClickUpload, UploadResolved (Some ''t1''), Tick] csv_init" "[]"]
    by (simp add: n number_string_0 number_string_12 listed_failed_urls_def
        more_failed_urls_def)
qed

section \<open>Properties of the polling callback\<close>

text \<open>
  One answer to a poll, in any reachable state: on the status \<open>completed\<close> or \<open>error\<close>
  the callback ends the upload and no timer runs afterwards; on any other status it only
  stores the progress, so the timer keeps running.
\<close>


theorem poll_callback_stops_iff_terminal:
  "reachable_csv w \<Longrightarrow>
     (status d = ''completed'' \<or> status d = ''error'' \<longrightarrow>
        isUploading (step (PollResolved i d) w) = False
        \<and> interval (step (PollResolved i d) w) = None)
     \<and> (status d \<noteq> ''completed'' \<and> status d \<noteq> ''error'' \<longrightarrow>
        step (PollResolved i d) w = w\<lparr>progress := Some d\<rparr>)"
proof -
  assume "reachable_csv w"
  then have inv: "poll_inv (step (PollResolved i d) w)"
    by (intro poll_inv_step reachable_poll_inv)
  have a: "isUploading (step (PollResolved i d) w) = False"
    if "status d = ''completed'' \<or> status d = ''error''"
    using that by (auto simp add: step_def rerender_state poll_resolved_def Let_def
        clearInterval_state)
  have b: "interval (step (PollResolved i d) w) = None"
    if "status d = ''completed'' \<or> status d = ''error''"
    using a [OF that] inv by (auto simp add: poll_inv_def split: option.splits)
  have c: "step (PollResolved i d) w = w\<lparr>progress := Some d\<rparr>"
    if "status d \<noteq> ''completed'' \<and> status d \<noteq> ''error''"
    using that by (simp add: step_def rerender_def poll_resolved_def Let_def)
  from a b c show ?thesis by blast
qed

theorem poll_callback_stops_iff_terminal_witness:
  "reachable_csv (run [Drop [urls_csv], ClickUpload, UploadResolved (Some ''t1''), Tick] csv_init)
   \<and> interval (run [Drop [urls_csv], ClickUpload, UploadResolved (Some ''t1''), Tick] csv_init)
       = Some \<lparr>timer_id = 0, delay = 2000, polled_task = ''t1''\<rparr>
   \<and> interval (step (PollResolved 0 job_done)
        (run [Drop [urls_csv], ClickUpload, UploadResolved (Some ''t1''), Tick] csv_init)) = None
   \<and> interval (step (PollResolved 0 (job_done\<lparr>status := ''processing''\<rparr>))
        (run [Drop [urls_csv], ClickUpload, UploadResolved (Some ''t1''), Tick] csv_init))
       = Some \<lparr>timer_id = 0, delay = 2000, polled_task = ''t1''\<rparr>"
proof -
  have r: "reachable_csv
      (run [Drop [urls_csv], ClickUpload, UploadResolved (Some ''t1''), Tick] csv_init)"
    using rc_step [OF rc_step [OF rc_step [OF rc_step [OF rc_init, of "Drop [urls_csv]"],
        of ClickUpload], of "UploadResolved (Some ''t1'')"], of Tick] by simp
  have i: "interval (run [Drop [urls_csv], ClickUpload, UploadResolved (Some ''t1''), Tick] csv_init)
       = Some \<lparr>timer_id = 0, delay = 2000, polled_task = ''t1''\<rparr>"
    by (simp add: csv_eval)
  show ?thesis
    using r i
      poll_callback_stops_iff_terminal [OF r, of job_done 0]
      poll_callback_stops_iff_terminal [OF r, of "job_done\<lparr>status := ''processing''\<rparr>" 0]
    by simp
qed

end
